theory Spec2Isabelle
  imports Main
begin

section \<open>Strings\<close>

text \<open>
  A Python \<open>str\<close> is a sequence of Unicode code points; it is modelled as a list of
  natural numbers, one per code point, so that \<open>len\<close> is \<open>length\<close>. A literal of the
  source is written \<open>py ''...''\<close>.
\<close>

type_synonym str = "nat list"

definition py :: "string \<Rightarrow> str" where
  "py s = map of_char s"

text \<open>\<open>str.isspace\<close> on one code point: the white-space table of CPython.\<close>

definition isspace :: "nat \<Rightarrow> bool" where
  "isspace c \<longleftrightarrow>
     (9 \<le> c \<and> c \<le> 13) \<or> (28 \<le> c \<and> c \<le> 32) \<or> c = 133 \<or> c = 160 \<or> c = 5760 \<or>
     (8192 \<le> c \<and> c \<le> 8202) \<or> c = 8232 \<or> c = 8233 \<or> c = 8239 \<or> c = 8287 \<or> c = 12288"

text \<open>\<open>s.strip()\<close>: white space removed at both ends.\<close>

definition strip :: "str \<Rightarrow> str" where
  "strip s = rev (dropWhile isspace (rev (dropWhile isspace s)))"

text \<open>\<open>s.startswith(p)\<close>.\<close>

definition startswith :: "str \<Rightarrow> str \<Rightarrow> bool" where
  "startswith s p \<longleftrightarrow> take (length p) s = p"

section \<open>del\_dir.py: the active-marker resolver\<close>

definition TMP_DIR :: str where
  "TMP_DIR = py ''/tmp''"

definition TARGET_LOG :: str where
  "TARGET_LOG = py ''fx_debug_log.txt''"

text \<open>
  Text-mode reading translates \<open>\r\n\<close> and a lone \<open>\r\<close> to \<open>\n\<close> (universal newlines);
  \<open>readlines\<close> then cuts after every \<open>\n\<close> and keeps it at the end of its line.
\<close>

fun universal_newlines :: "str \<Rightarrow> str" where
  "universal_newlines [] = []"
| "universal_newlines [c] = (if c = 13 then [10] else [c])"
| "universal_newlines (c # d # cs) =
     (if c = 13 \<and> d = 10 then 10 # universal_newlines cs
      else if c = 13 then 10 # universal_newlines (d # cs)
      else c # universal_newlines (d # cs))"

fun keepends :: "str \<Rightarrow> str list" where
  "keepends [] = []"
| "keepends (c # cs) =
     (if c = 10 then [10] # keepends cs
      else (case keepends cs of [] \<Rightarrow> [[c]] | l # ls \<Rightarrow> (c # l) # ls))"

definition readlines :: "str \<Rightarrow> str list" where
  "readlines content = keepends (universal_newlines content)"

text \<open>
  \<open>lines = [line.strip() for line in f.readlines() if line.strip()]\<close>: an empty
  string is falsy, so the lines that are blank after stripping are dropped, and the
  lines kept are the stripped ones.
\<close>

definition stripped_lines :: "str \<Rightarrow> str list" where
  "stripped_lines content = map strip (filter (\<lambda>line. strip line \<noteq> []) (readlines content))"

text \<open>
  \<open>for line in reversed(lines): if line.startswith("/tmp/"): return os.path.realpath(line)\<close>
  and \<open>return None\<close> after the loop. The argument is the reversed list; \<open>realpath\<close> is the
  operating system's canonicalisation, a parameter of the model.
\<close>

fun scan_lines :: "(str \<Rightarrow> str) \<Rightarrow> str list \<Rightarrow> str option" where
  "scan_lines realpath [] = None"
| "scan_lines realpath (line # rest) =
     (if startswith line (py ''/tmp/'') then Some (realpath line)
      else scan_lines realpath rest)"

text \<open>
  The marker file is \<open>None\<close> when \<open>os.path.exists(LAST_TEMP_FILE)\<close> is false and
  \<open>Some content\<close>, its decoded text, otherwise.
\<close>

definition load_active_tmp_dir :: "(str \<Rightarrow> str) \<Rightarrow> str option \<Rightarrow> str option" where
  "load_active_tmp_dir realpath marker =
     (case marker of
        None \<Rightarrow> None
      | Some content \<Rightarrow> scan_lines realpath (rev (stripped_lines content)))"

section \<open>del\_dir.py: the directory sweeper\<close>

text \<open>
  The tree below the temp root, as \<open>os.walk\<close> lists it: a directory has the names of its
  non-directory entries (the \<open>files\<close> of the walk) and its sub-directories by name.
  Symbolic links to directories are left out: the walk lists them but does not enter them,
  and the sweeper never reads the \<open>dirs\<close> list.
\<close>

datatype dtree = Dir (dfiles: "str list") (dsubs: "(str \<times> dtree) list")

text \<open>The status lines printed by the sweeper, in order.\<close>

datatype event = Info str | Warn | Skip str | Delete str | Error str

text \<open>\<open>os.path.join(root, name)\<close> of \<open>posixpath\<close>, as \<open>os.walk\<close> builds the paths.\<close>

definition join :: "str \<Rightarrow> str \<Rightarrow> str" where
  "join a b =
     (if startswith b (py ''/'') then b
      else if a = [] \<or> last a = 47 then a @ b
      else a @ py ''/'' @ b)"

text \<open>\<open>if active_dir\<close>: \<open>None\<close> and the empty string are falsy.\<close>

definition truthy :: "str option \<Rightarrow> bool" where
  "truthy a = (case a of None \<Rightarrow> False | Some s \<Rightarrow> s \<noteq> [])"

text \<open>\<open>active_dir and root_real == active_dir\<close>.\<close>

definition is_active :: "str option \<Rightarrow> str \<Rightarrow> bool" where
  "is_active active root_real \<longleftrightarrow> truthy active \<and> Some root_real = active"

text \<open>
  The loop \<open>for root, dirs, files in os.walk(TMP_DIR)\<close> with its body. The walk is top-down
  and lazy: the body runs on a directory before the walk enters its sub-directories, and a
  sub-directory that \<open>shutil.rmtree\<close> has removed by then cannot be listed and is passed over
  silently. \<open>walk\<close> is one directory with everything below it, \<open>walk_subs\<close> the
  sub-directories of \<open>root\<close> in the order of the \<open>dirs\<close> list. The result is the status
  lines and what is left of the directory (\<open>None\<close> when it is gone).

  \<open>realpath\<close> names the directory itself, so \<open>rmtree(root_real)\<close> acts on the directory being
  visited. \<open>fails root_real\<close> says that \<open>rmtree\<close> raises on that directory. It has then removed
  some of what was below the directory and left the rest: \<open>kept\<close> says which paths are
  still there after a \<open>rmtree\<close> that raised. The directory itself is still there, the
  exception is caught and reported, and the walk goes on through the \<open>dirs\<close> it had listed
  before. \<open>broken\<close> says that a \<open>rmtree\<close> on a directory above has raised: the
  sub-directories that are gone are passed over, and the files of a directory are those
  that are left when the walk lists it.
\<close>

fun walk :: "(str \<Rightarrow> str) \<Rightarrow> (str \<Rightarrow> bool) \<Rightarrow> (str \<Rightarrow> bool) \<Rightarrow> bool \<Rightarrow> str option \<Rightarrow> str
               \<Rightarrow> dtree \<Rightarrow> event list \<times> dtree option"
and walk_subs :: "(str \<Rightarrow> str) \<Rightarrow> (str \<Rightarrow> bool) \<Rightarrow> (str \<Rightarrow> bool) \<Rightarrow> bool \<Rightarrow> str option \<Rightarrow> str
               \<Rightarrow> (str \<times> dtree) list \<Rightarrow> event list \<times> (str \<times> dtree) list"
where
  "walk realpath fails kept broken active root (Dir files subs) =
     (let listed = (if broken then filter (\<lambda>f. kept (join root f)) files else files) in
      if TARGET_LOG \<in> set listed then
        (let root_real = realpath root in
         if is_active active root_real then
           (let (ev, subs') = walk_subs realpath fails kept broken active root subs
            in (Skip root_real # ev, Some (Dir listed subs')))
         else if fails root_real then
           (let (ev, subs') = walk_subs realpath fails kept True active root subs
            in (Delete root_real # Error root_real # ev,
                Some (Dir (filter (\<lambda>f. kept (join root f)) listed) subs')))
         else ([Delete root_real], None))
      else
        (let (ev, subs') = walk_subs realpath fails kept broken active root subs
         in (ev, Some (Dir listed subs'))))"
| "walk_subs realpath fails kept broken active root [] = ([], [])"
| "walk_subs realpath fails kept broken active root ((name, t) # rest) =
     (if broken \<and> \<not> kept (join root name) then
        walk_subs realpath fails kept broken active root rest
      else
        (let (ev1, r) = walk realpath fails kept broken active (join root name) t;
             (ev2, rest') = walk_subs realpath fails kept broken active root rest
         in (ev1 @ ev2, (case r of None \<Rightarrow> rest' | Some t' \<Rightarrow> (name, t') # rest'))))"

text \<open>
  \<open>cleanup_tmp_dirs\<close>: the marker file and the tree at \<open>/tmp\<close> (\<open>None\<close> when the directory
  cannot be listed, which the walk ignores) are the state read; the status lines and the
  tree left behind are the result.
\<close>

definition cleanup_tmp_dirs :: "(str \<Rightarrow> str) \<Rightarrow> (str \<Rightarrow> bool) \<Rightarrow> (str \<Rightarrow> bool) \<Rightarrow> str option
               \<Rightarrow> dtree option \<Rightarrow> event list \<times> dtree option" where
  "cleanup_tmp_dirs realpath fails kept marker tmp =
     (let active_dir = load_active_tmp_dir realpath marker;
          msg = (case active_dir of
                   None \<Rightarrow> Warn
                 | Some a \<Rightarrow> if a \<noteq> [] then Info a else Warn)
      in case tmp of
           None \<Rightarrow> ([msg], None)
         | Some t \<Rightarrow>
             (let (ev, r) = walk realpath fails kept False active_dir TMP_DIR t
              in (msg # ev, r)))"

section \<open>xmledit.py: the configuration document\<close>

text \<open>
  An element of \<open>xml.etree.ElementTree\<close>: tag, attributes, text, children and tail. The
  text and the tail are \<open>None\<close> when absent.
\<close>

datatype element =
  Element (etag: str) (eattrib: "(str \<times> str) list") (etext: "str option")
          (echildren: "element list") (etail: "str option")

definition XML_PATH :: str where
  "XML_PATH = py ''/opt/Innovations/System/bot_config.xml''"

text \<open>
  An element of the tree is identified by its path: the child indices from the root. The
  elements of a tree in document order, as \<open>Element.iter\<close> yields them, with their paths.
\<close>

fun iter_elems :: "element \<Rightarrow> (nat list \<times> element) list"
and iter_children :: "nat \<Rightarrow> element list \<Rightarrow> (nat list \<times> element) list"
where
  "iter_elems (Element t a x cs tail) = ([], Element t a x cs tail) # iter_children 0 cs"
| "iter_children i [] = []"
| "iter_children i (c # cs) =
     map (\<lambda>(p, e). (i # p, e)) (iter_elems c) @ iter_children (Suc i) cs"

text \<open>\<open>root.findall(".//table")\<close>: the descendants of the root with tag \<open>table\<close>.\<close>

definition findall_table :: "element \<Rightarrow> (nat list \<times> element) list" where
  "findall_table root =
     filter (\<lambda>(p, e). p \<noteq> [] \<and> etag e = py ''table'') (iter_elems root)"

text \<open>
  \<open>table.find("./column[@name='...']")\<close>: the first child with tag \<open>column\<close> whose
  attribute \<open>name\<close> has the given value, with its index, or \<open>None\<close>.
\<close>

definition is_column :: "str \<Rightarrow> element \<Rightarrow> bool" where
  "is_column name e \<longleftrightarrow> etag e = py ''column'' \<and> map_of (eattrib e) (py ''name'') = Some name"

fun find_child :: "(element \<Rightarrow> bool) \<Rightarrow> nat \<Rightarrow> element list \<Rightarrow> (nat \<times> element) option" where
  "find_child P i [] = None"
| "find_child P i (c # cs) = (if P c then Some (i, c) else find_child P (Suc i) cs)"

definition find_column :: "element \<Rightarrow> str \<Rightarrow> (nat \<times> element) option" where
  "find_column table name = find_child (is_column name) 0 (echildren table)"


fun set_text :: "element \<Rightarrow> nat list \<Rightarrow> str option \<Rightarrow> element" where
  "set_text (Element t a x cs tail) [] v = Element t a v cs tail"
| "set_text (Element t a x cs tail) (i # p) v =
     Element t a x (if i < length cs then cs[i := set_text (cs ! i) p v] else cs) tail"

subsection \<open>Output and errors\<close>

datatype error = AttributeError | ParseError | EOFError | OSError

text \<open>What the tool prints: the lines of the table, and one constructor per message.\<close>

datatype out =
    Line str
  | FileNotFound
  | Usage
  | BadArgs
  | Updated str "str option" str
  | KeyNotFound str
  | Restarting
  | RestartDone
  | RestartSkipped
  | RestartFailed
  | Interrupted
  | Traceback error

subsection \<open>view\_configs\<close>

text \<open>\<open>s.ljust(n)\<close> pads with spaces on the right up to width \<open>n\<close>.\<close>

definition ljust :: "str \<Rightarrow> nat \<Rightarrow> str" where
  "ljust s n = s @ replicate (n - length s) 32"

text \<open>\<open>elem.text or ""\<close>.\<close>

definition text_or_empty :: "element \<Rightarrow> str" where
  "text_or_empty e = (case etext e of None \<Rightarrow> [] | Some s \<Rightarrow> s)"

text \<open>
  The first loop of \<open>view_configs\<close>, with its three accumulators. The description is
  \<open>ettc.text\<close>, which may be \<open>None\<close>, or the empty string when there is no such column.
\<close>

type_synonym row = "str \<times> str \<times> str option"

fun collect :: "(nat list \<times> element) list \<Rightarrow> row list \<times> nat \<times> nat \<Rightarrow> row list \<times> nat \<times> nat" where
  "collect [] acc = acc"
| "collect ((p, table) # rest) (rows, max_key_len, max_val_len) =
     (case (find_column table (py ''key''), find_column table (py ''value'')) of
        (Some (i, key), Some (j, val)) \<Rightarrow>
          (let k = text_or_empty key;
               v = text_or_empty val;
               d = (case find_column table (py ''ettc'') of
                      Some (l, ettc) \<Rightarrow> etext ettc
                    | None \<Rightarrow> Some [])
           in collect rest (rows @ [(k, v, d)], max max_key_len (length k), max max_val_len (length v)))
      | _ \<Rightarrow> collect rest (rows, max_key_len, max_val_len))"

text \<open>An f-string prints \<open>None\<close> as the word.\<close>

definition fmt :: "str option \<Rightarrow> str" where
  "fmt d = (case d of None \<Rightarrow> py ''None'' | Some s \<Rightarrow> s)"

definition view_configs :: "element \<Rightarrow> str list" where
  "view_configs root =
     (let (rows, max_key_len, max_val_len) = collect (findall_table root) ([], 0, 0)
      in [py '' '',
          ljust (py ''KEY'') max_key_len @ py ''  '' @ ljust (py ''VALUE'') max_val_len @ py ''  ''
            @ py ''DESCRIPTION'',
          replicate (max_key_len + max_val_len + 15) 45]
         @ map (\<lambda>(k, v, d). ljust k max_key_len @ py ''  '' @ ljust v max_val_len @ py ''  '' @ fmt d)
             rows)"

subsection \<open>update\_config\<close>

text \<open>
  The loop over the tables. \<open>key.text == target_key\<close> is false when the text is \<open>None\<close>.
  \<open>value.text\<close> on a value that is \<open>None\<close> raises \<open>AttributeError\<close>. The new value comes
  from the command line and is a string, so \<open>str(new_value)\<close> is the value itself. The
  result is the printed message, the boolean returned and the tree after the assignment.
\<close>

fun update_loop :: "element \<Rightarrow> (nat list \<times> element) list \<Rightarrow> str \<Rightarrow> str
                     \<Rightarrow> error + (out list \<times> bool \<times> element)" where
  "update_loop root [] target_key new_value = Inr ([KeyNotFound target_key], False, root)"
| "update_loop root ((p, table) # rest) target_key new_value =
     (case find_column table (py ''key'') of
        None \<Rightarrow> update_loop root rest target_key new_value
      | Some (i, key) \<Rightarrow>
          if etext key = Some target_key then
            (case find_column table (py ''value'') of
               None \<Rightarrow> Inl AttributeError
             | Some (j, val) \<Rightarrow>
                 Inr ([Updated target_key (etext val) new_value], True,
                      set_text root (p @ [j]) (Some new_value)))
          else update_loop root rest target_key new_value)"

definition update_config :: "element \<Rightarrow> str \<Rightarrow> str \<Rightarrow> error + (out list \<times> bool \<times> element)" where
  "update_config root target_key new_value =
     update_loop root (findall_table root) target_key new_value"

subsection \<open>Files\<close>

text \<open>
  The files the tool touches: a path has a content or does not exist. A write is a sequence
  of operations on the disk, so that the state a crash leaves behind is the state after
  some of them.
\<close>

type_synonym disk = "str \<Rightarrow> str option"

datatype fsop = OpenTruncate str | WriteChunk str str | CloseFile str | Rename str str

fun apply_op :: "disk \<Rightarrow> fsop \<Rightarrow> disk" where
  "apply_op d (OpenTruncate p) = d(p := Some [])"
| "apply_op d (WriteChunk p s) = d(p := Some ((case d p of None \<Rightarrow> [] | Some c \<Rightarrow> c) @ s))"
| "apply_op d (CloseFile p) = d"
| "apply_op d (Rename a b) = (d(b := d a))(a := None)"

definition run_ops :: "fsop list \<Rightarrow> disk \<Rightarrow> disk" where
  "run_ops ops d = foldl apply_op d ops"

definition crash_states :: "fsop list \<Rightarrow> disk \<Rightarrow> disk list" where
  "crash_states ops d = map (\<lambda>n. run_ops (take n ops) d) [0..<Suc (length ops)]"

definition XML_DECL :: str where
  "XML_DECL = py ''<?xml version='' @ [39] @ py ''1.0'' @ [39] @ py '' encoding='' @ [39]
              @ py ''utf-8'' @ [39] @ py ''?>'' @ [10]"

text \<open>
  \<open>tree.write(XML_PATH, encoding="utf-8", xml_declaration=True)\<close>: the library opens the
  path itself for writing, which truncates it, writes the declaration and the serialized
  root, and closes the file. \<open>serialize\<close> is the library's serializer, a parameter.
\<close>

definition tree_write :: "(element \<Rightarrow> str) \<Rightarrow> element \<Rightarrow> str \<Rightarrow> fsop list" where
  "tree_write serialize root path =
     [OpenTruncate path, WriteChunk path XML_DECL, WriteChunk path (serialize root), CloseFile path]"

text \<open>
  \<open>load_xml\<close>: \<open>ET.parse(XML_PATH)\<close>. A missing file prints a message and exits with
  status 1; a document that does not parse raises \<open>ParseError\<close>, which nothing catches.
  \<open>parse\<close> is the library's parser, a parameter. An exit is \<open>Inl\<close> of the output and the
  status.
\<close>

definition load_xml :: "(str \<Rightarrow> element option) \<Rightarrow> disk \<Rightarrow> (out list \<times> nat) + element" where
  "load_xml parse d =
     (case d XML_PATH of
        None \<Rightarrow> Inl ([FileNotFound], 1)
      | Some content \<Rightarrow>
          (case parse content of
             None \<Rightarrow> Inl ([Traceback ParseError], 1)
           | Some root \<Rightarrow> Inr root))"

subsection \<open>ask\_restart\<close>

text \<open>
  What \<open>input\<close> gives: a line, end of input or an interrupt. What running the restart
  script gives: success, a non-zero exit, an interrupt, or a failure to start it.
\<close>

datatype stdin_result = Answer str | Eof | InputInterrupted

datatype run_result = RunOk | CalledProcessError | RunInterrupted | RunOSError

text \<open>\<open>str.lower\<close> on the letters that matter for the comparison with \<open>y\<close> and \<open>yes\<close>.\<close>

definition lower :: "str \<Rightarrow> str" where
  "lower s = map (\<lambda>c. if 65 \<le> c \<and> c \<le> 90 then c + 32 else c) s"

text \<open>The output, and the exception that escapes, if any.\<close>

definition ask_restart :: "stdin_result \<Rightarrow> run_result \<Rightarrow> out list \<times> error option" where
  "ask_restart inp run =
     (case inp of
        Eof \<Rightarrow> ([], Some EOFError)
      | InputInterrupted \<Rightarrow> ([Interrupted], None)
      | Answer a \<Rightarrow>
          (let ans = lower (strip a) in
           if ans = py ''y'' \<or> ans = py ''yes'' then
             (case run of
                RunOk \<Rightarrow> ([Restarting, RestartDone], None)
              | CalledProcessError \<Rightarrow> ([Restarting, RestartFailed], None)
              | RunInterrupted \<Rightarrow> ([Restarting, Interrupted], None)
              | RunOSError \<Rightarrow> ([Restarting], Some OSError))
           else ([RestartSkipped], None)))"

subsection \<open>main\<close>

text \<open>
  \<open>argv\<close> is \<open>sys.argv\<close>, the script name first. The result is the output, the exit
  status (0 on a normal return, 1 after an uncaught exception) and the disk.
\<close>

definition main :: "(str \<Rightarrow> element option) \<Rightarrow> (element \<Rightarrow> str) \<Rightarrow> stdin_result \<Rightarrow> run_result
                     \<Rightarrow> str list \<Rightarrow> disk \<Rightarrow> out list \<times> nat \<times> disk" where
  "main parse serialize inp run argv d =
     (if length argv < 2 then ([Usage], 0, d)
      else
        (case load_xml parse d of
           Inl (outs, status) \<Rightarrow> (outs, status, d)
         | Inr tree \<Rightarrow>
             if argv ! 1 = py ''view'' then (map Line (view_configs tree), 0, d)
             else if length argv \<noteq> 3 then ([BadArgs], 1, d)
             else
               (let key = argv ! 1; val = argv ! 2 in
                case update_config tree key val of
                  Inl e \<Rightarrow> ([Traceback e], 1, d)
                | Inr (outs, changed, tree') \<Rightarrow>
                    if changed then
                      (let d' = run_ops (tree_write serialize tree' XML_PATH) d;
                           (outs', exc) = ask_restart inp run
                       in case exc of
                            None \<Rightarrow> (outs @ outs', 0, d')
                          | Some e \<Rightarrow> (outs @ outs' @ [Traceback e], 1, d'))
                    else (outs, 0, d))))"

section \<open>Notions used in the statements\<close>

text \<open>
  The resolver as the specification words it: the blank lines are discarded and, of the
  lines as they stand in the file (without the line terminator), the last one that starts
  with the prefix is returned, canonicalized.
\<close>

definition chomp :: "str \<Rightarrow> str" where
  "chomp l = (if l \<noteq> [] \<and> last l = 10 then butlast l else l)"

definition resolve_raw :: "(str \<Rightarrow> str) \<Rightarrow> str option \<Rightarrow> str option" where
  "resolve_raw realpath marker =
     (case marker of
        None \<Rightarrow> None
      | Some content \<Rightarrow>
          (case List.find (\<lambda>l. startswith l (py ''/tmp/''))
                  (rev (map chomp (filter (\<lambda>l. strip l \<noteq> []) (readlines content)))) of
             None \<Rightarrow> None
           | Some l \<Rightarrow> Some (realpath l)))"

text \<open>A status list that reports nothing but skipped directories.\<close>

definition only_skips :: "event list \<Rightarrow> bool" where
  "only_skips ev \<longleftrightarrow> (\<forall>e \<in> set ev. \<exists>q. e = Skip q)"






definition marker_nested :: str where
  "marker_nested = py ''/tmp/a/act'' @ [10]"

definition tree_nested :: dtree where
  "tree_nested = Dir [] [(py ''a'', Dir [TARGET_LOG] [(py ''act'', Dir [TARGET_LOG] [])])]"

definition marker_act :: str where
  "marker_act = py ''/tmp/act'' @ [10]"

definition tree_act :: dtree where
  "tree_act =
     Dir [] [(py ''act'', Dir [TARGET_LOG, py ''data''] [(py ''sub'', Dir [TARGET_LOG] [])])]"

definition no_failure :: "str \<Rightarrow> bool" where
  "no_failure q = False"

definition all_kept :: "str \<Rightarrow> bool" where
  "all_kept q = True"






subsection \<open>Notions for the configuration tool\<close>

text \<open>
  The first table, in document order, whose key column has the text \<open>key\<close>.
\<close>

definition key_matches :: "str \<Rightarrow> element \<Rightarrow> bool" where
  "key_matches key table =
     (case find_column table (py ''key'') of
        None \<Rightarrow> False
      | Some (i, k) \<Rightarrow> etext k = Some key)"

definition first_match :: "element \<Rightarrow> str \<Rightarrow> (nat list \<times> element) option" where
  "first_match root key = List.find (\<lambda>(p, table). key_matches key table) (findall_table root)"

text \<open>
  The document as the specification sees it: one entry per table, each with its key, value
  and description. A field is missing when the table has no such column; otherwise it has
  the text of the column, which may be absent.
\<close>

datatype field = Missing | Text "str option"

type_synonym entry = "field \<times> field \<times> field"

definition field_of :: "element \<Rightarrow> str \<Rightarrow> field" where
  "field_of table name =
     (case find_column table name of None \<Rightarrow> Missing | Some (i, c) \<Rightarrow> Text (etext c))"

definition entry_of :: "element \<Rightarrow> entry" where
  "entry_of table =
     (field_of table (py ''key''), field_of table (py ''value''), field_of table (py ''ettc''))"

definition entries :: "element \<Rightarrow> entry list" where
  "entries root = map (\<lambda>(p, table). entry_of table) (findall_table root)"


text \<open>The value that the document has for a key: that of the first entry with the key.\<close>

definition value_of :: "str \<Rightarrow> entry list \<Rightarrow> field option" where
  "value_of key es =
     (case List.find (\<lambda>(k, x, d). k = Text (Some key)) es of
        None \<Rightarrow> None
      | Some (k, x, d) \<Rightarrow> Some x)"

text \<open>
  The element that stands at path \<open>p\<close> once the text at path \<open>q\<close> has been assigned, given the
  element \<open>x\<close> that stood there before.
\<close>

definition after :: "nat list \<Rightarrow> str option \<Rightarrow> nat list \<Rightarrow> element \<Rightarrow> element" where
  "after q v p x = (if take (length p) q = p then set_text x (drop (length p) q) v else x)"

text \<open>
  The table as the specification words it: the entries that have both a key and a value,
  in document order, and the widths of the two columns.
\<close>

definition has_both :: "element \<Rightarrow> bool" where
  "has_both table \<longleftrightarrow>
     find_column table (py ''key'') \<noteq> None \<and> find_column table (py ''value'') \<noteq> None"

definition field_text :: "field \<Rightarrow> str" where
  "field_text f = (case f of Text (Some s) \<Rightarrow> s | _ \<Rightarrow> [])"

definition row_of :: "element \<Rightarrow> row" where
  "row_of table =
     (field_text (field_of table (py ''key'')), field_text (field_of table (py ''value'')),
      (case field_of table (py ''ettc'') of Missing \<Rightarrow> Some [] | Text x \<Rightarrow> x))"

definition table_rows :: "element \<Rightarrow> row list" where
  "table_rows root = map row_of (filter has_both (map snd (findall_table root)))"

definition key_width :: "element \<Rightarrow> nat" where
  "key_width root = Max (set (0 # map (\<lambda>(k, v, d). length k) (table_rows root)))"

definition value_width :: "element \<Rightarrow> nat" where
  "value_width root = Max (set (0 # map (\<lambda>(k, v, d). length v) (table_rows root)))"

text \<open>The file operations that rename a file.\<close>

fun is_rename :: "fsop \<Rightarrow> bool" where
  "is_rename (Rename a b) = True"
| "is_rename _ = False"

text \<open>
  The serializer of the library for a tree without namespaces: the characters that the
  format reserves are escaped, and an element without text and children is written in the
  short form.
\<close>

definition escape_cdata :: "str \<Rightarrow> str" where
  "escape_cdata s =
     concat (map (\<lambda>c. if c = 38 then py ''&amp;'' else if c = 60 then py ''&lt;''
                        else if c = 62 then py ''&gt;'' else [c]) s)"

definition escape_attrib :: "str \<Rightarrow> str" where
  "escape_attrib s =
     concat (map (\<lambda>c. if c = 38 then py ''&amp;'' else if c = 60 then py ''&lt;''
                        else if c = 62 then py ''&gt;'' else if c = 34 then py ''&quot;''
                        else if c = 13 then py ''&#13;'' else if c = 10 then py ''&#10;''
                        else if c = 9 then py ''&#09;'' else [c]) s)"

fun serialize_xml :: "element \<Rightarrow> str" where
  "serialize_xml (Element t a x cs tail) =
     py ''<'' @ t
     @ concat (map (\<lambda>(k, v). py '' '' @ k @ py ''='' @ [34] @ escape_attrib v @ [34]) a)
     @ (if (x \<noteq> None \<and> x \<noteq> Some []) \<or> cs \<noteq> [] then
          py ''>'' @ (case x of None \<Rightarrow> [] | Some s \<Rightarrow> escape_cdata s)
          @ concat (map serialize_xml cs) @ py ''</'' @ t @ py ''>''
        else py '' />'')
     @ (case tail of None \<Rightarrow> [] | Some s \<Rightarrow> escape_cdata s)"

text \<open>Example documents and states.\<close>

definition column :: "str \<Rightarrow> str option \<Rightarrow> element" where
  "column name x = Element (py ''column'') [(py ''name'', name)] x [] None"

definition doc_two :: element where
  "doc_two =
     Element (py ''database'') [] None
       [Element (py ''table'') [] None
          [column (py ''key'') (Some (py ''poll_interval'')),
           column (py ''value'') (Some (py ''30'')),
           column (py ''ettc'') (Some (py ''seconds''))] None,
        Element (py ''table'') [] None
          [column (py ''key'') (Some (py ''mode'')),
           column (py ''value'') (Some (py ''live''))] None] None"

definition doc_two_updated :: element where
  "doc_two_updated =
     Element (py ''database'') [] None
       [Element (py ''table'') [] None
          [column (py ''key'') (Some (py ''poll_interval'')),
           column (py ''value'') (Some (py ''60'')),
           column (py ''ettc'') (Some (py ''seconds''))] None,
        Element (py ''table'') [] None
          [column (py ''key'') (Some (py ''mode'')),
           column (py ''value'') (Some (py ''live''))] None] None"

definition doc_novalue :: element where
  "doc_novalue =
     Element (py ''database'') [] None
       [Element (py ''table'') [] None [column (py ''key'') (Some (py ''mode''))] None] None"

text \<open>A disk that holds the serialized example document, and a parser that knows it.\<close>

definition disk_two :: disk where
  "disk_two p = (if p = XML_PATH then Some (XML_DECL @ serialize_xml doc_two) else None)"

definition disk_empty :: disk where
  "disk_empty p = None"

definition parse_two :: "str \<Rightarrow> element option" where
  "parse_two s =
     (if s = XML_DECL @ serialize_xml doc_two then Some doc_two
      else if s = XML_DECL @ serialize_xml doc_two_updated then Some doc_two_updated
      else None)"










definition disk_novalue :: disk where
  "disk_novalue p = (if p = XML_PATH then Some (XML_DECL @ serialize_xml doc_novalue) else None)"

definition parse_novalue :: "str \<Rightarrow> element option" where
  "parse_novalue s = (if s = XML_DECL @ serialize_xml doc_novalue then Some doc_novalue else None)"

section \<open>Properties of the resolver and the sweeper\<close>

subsection \<open>The scan of the marker lines\<close>




lemma scan_lines_some:
  "scan_lines rp ls = Some r \<Longrightarrow> \<exists>l \<in> set ls. startswith l (py ''/tmp/'') \<and> r = rp l"
  by (induction ls) (auto split: if_splits)

subsection \<open>The walk\<close>

lemma only_skips_simps [simp]:
  "only_skips []" "only_skips (Skip q # ev) = only_skips ev"
  "only_skips (xs @ ys) \<longleftrightarrow> only_skips xs \<and> only_skips ys"
  by (auto simp: only_skips_def)





section \<open>The claims about the resolver and the sweeper\<close>

lemmas str_eval = py_def strip_def isspace_def startswith_def chomp_def
lemmas resolver_eval = load_active_tmp_dir_def stripped_lines_def readlines_def resolve_raw_def
lemmas sweep_eval = cleanup_tmp_dirs_def is_active_def truthy_def TARGET_LOG_def TMP_DIR_def
  join_def no_failure_def all_kept_def

text \<open>
  Claim C1 says that a sentinel-bearing directory whose canonical path equals the active
  directory is skipped and never deleted. The code compares only the directory it visits
  with the active one: when the marker file names \<open>/tmp/a/act\<close> and both \<open>/tmp/a\<close> and
  \<open>/tmp/a/act\<close> hold the sentinel, the sweep deletes \<open>/tmp/a\<close> with the active directory in
  it, and no directory is reported as skipped.
\<close>

theorem sweep_deletes_nested_active:
  "load_active_tmp_dir id (Some marker_nested) = Some (py ''/tmp/a/act'')
   \<and> cleanup_tmp_dirs id no_failure all_kept (Some marker_nested) (Some tree_nested)
       = ([Info (py ''/tmp/a/act''), Delete (py ''/tmp/a'')], Some (Dir [] []))"
  by (simp add: tree_nested_def marker_nested_def resolver_eval sweep_eval str_eval)

text \<open>
  Claim C2 says that nothing beneath the active directory is deleted, its sentinel-bearing
  sub-directories included. The code skips the deletion of the active directory and then
  walks into it: when the marker file names \<open>/tmp/act\<close> and both \<open>/tmp/act\<close> and
  \<open>/tmp/act/sub\<close> hold the sentinel, the sweep reports \<open>/tmp/act\<close> as skipped and deletes
  \<open>/tmp/act/sub\<close>.
\<close>

theorem sweep_deletes_below_active:
  "load_active_tmp_dir id (Some marker_act) = Some (py ''/tmp/act'')
   \<and> cleanup_tmp_dirs id no_failure all_kept (Some marker_act) (Some tree_act)
       = ([Info (py ''/tmp/act''), Skip (py ''/tmp/act''), Delete (py ''/tmp/act/sub'')],
          Some (Dir [] [(py ''act'', Dir [TARGET_LOG, py ''data''] [])]))"
  by (simp add: tree_act_def marker_act_def resolver_eval sweep_eval str_eval)







section \<open>Properties of the configuration tool\<close>

lemmas xml_eval = update_config_def findall_table_def find_column_def is_column_def column_def
  key_matches_def first_match_def field_of_def entry_of_def entries_def value_of_def
  has_both_def row_of_def table_rows_def text_or_empty_def field_text_def

lemma update_loop_find:
  "update_loop root ts key v =
     (case List.find (\<lambda>(p, table). key_matches key table) ts of
        None \<Rightarrow> Inr ([KeyNotFound key], False, root)
      | Some (p, table) \<Rightarrow>
          (case find_column table (py ''value'') of
             None \<Rightarrow> Inl AttributeError
           | Some (j, val) \<Rightarrow>
               Inr ([Updated key (etext val) v], True, set_text root (p @ [j]) (Some v))))"
proof (induction ts)
  case Nil
  then show ?case by simp
next
  case (Cons x ts)
  obtain p table where x: "x = (p, table)" by (cases x)
  show ?case
  proof (cases "find_column table (py ''key'')")
    case None
    then show ?thesis using Cons.IH x by (simp add: key_matches_def)
  next
    case (Some ik)
    obtain i k where ik: "ik = (i, k)" by (cases ik)
    show ?thesis
    proof (cases "etext k = Some key")
      case True
      then show ?thesis using Some ik x
        by (simp add: key_matches_def split: option.splits)
    next
      case False
      then show ?thesis using Some ik x Cons.IH by (simp add: key_matches_def)
    qed
  qed
qed

lemma update_config_first_match:
  "update_config root key v =
     (case first_match root key of
        None \<Rightarrow> Inr ([KeyNotFound key], False, root)
      | Some (p, table) \<Rightarrow>
          (case find_column table (py ''value'') of
             None \<Rightarrow> Inl AttributeError
           | Some (j, val) \<Rightarrow>
               Inr ([Updated key (etext val) v], True, set_text root (p @ [j]) (Some v))))"
  by (simp add: update_config_def first_match_def update_loop_find)

lemma collect_fold:
  "collect ts (rows, mk, mv) =
     (rows @ map row_of (filter has_both (map snd ts)),
      fold max (map (\<lambda>(k, v, d). length k) (map row_of (filter has_both (map snd ts)))) mk,
      fold max (map (\<lambda>(k, v, d). length v) (map row_of (filter has_both (map snd ts)))) mv)"
proof (induction ts arbitrary: rows mk mv)
  case Nil
  then show ?case by simp
next
  case (Cons x ts)
  obtain p table where x: "x = (p, table)" by (cases x)
  show ?case
  proof (cases "has_both table")
    case True
    then obtain i key j val where kv: "find_column table (py ''key'') = Some (i, key)"
      "find_column table (py ''value'') = Some (j, val)"
      by (auto simp: has_both_def)
    have r: "row_of table = (text_or_empty key, text_or_empty val,
        (case find_column table (py ''ettc'') of Some (l, ettc) \<Rightarrow> etext ettc | None \<Rightarrow> Some []))"
      using kv
      by (auto simp: row_of_def field_of_def field_text_def text_or_empty_def split: option.splits)
    show ?thesis using True x kv r Cons.IH
      by (simp add: Let_def max.commute)
  next
    case False
    then have "collect (x # ts) (rows, mk, mv) = collect ts (rows, mk, mv)"
      using x by (auto simp: has_both_def split: option.splits)
    then show ?thesis using False x Cons.IH by simp
  qed
qed

lemma widths_fold:
  "key_width root = fold max (map (\<lambda>(k, v, d). length k) (table_rows root)) 0"
  "value_width root = fold max (map (\<lambda>(k, v, d). length v) (table_rows root)) 0"
  by (simp_all add: key_width_def value_width_def Max.set_eq_fold del: set_simps)

lemmas main_eval = main_def load_xml_def disk_two_def disk_empty_def parse_two_def

lemma run_tree_write:
  "run_ops (tree_write serialize root path) d = d(path := Some (XML_DECL @ serialize root))"
  by (simp add: run_ops_def tree_write_def fun_eq_iff)

lemma crash_tree_write:
  "crash_states (tree_write serialize root path) d =
     [d, d(path := Some []), d(path := Some XML_DECL),
      d(path := Some (XML_DECL @ serialize root)), d(path := Some (XML_DECL @ serialize root))]"
proof -
  have u: "[0..<Suc (Suc (Suc (Suc (Suc 0))))] = [0, 1, 2, 3, 4]"
    by (simp add: upt_rec)
  have t: "take 1 (a # b # c # e # []) = [a]" "take 2 (a # b # c # e # []) = [a, b]"
    "take 3 (a # b # c # e # []) = [a, b, c]" "take 4 (a # b # c # e # []) = [a, b, c, e]"
    for a b c e :: fsop
    by (simp_all add: numeral_2_eq_2 numeral_3_eq_3 eval_nat_numeral)
  show ?thesis
    by (simp add: crash_states_def tree_write_def u t run_ops_def fun_eq_iff del: upt_Suc)
qed

subsection \<open>The assignment to one text leaves the rest of the tree alone\<close>

lemma set_text_tag [simp]: "etag (set_text e q v) = etag e"
  by (cases e; cases q) simp_all

lemma set_text_attrib [simp]: "eattrib (set_text e q v) = eattrib e"
  by (cases e; cases q) simp_all


lemma set_text_length [simp]: "length (echildren (set_text e q v)) = length (echildren e)"
  by (cases e; cases q) simp_all









lemma after_tag [simp]: "etag (after q v p x) = etag x"
  by (simp add: after_def)
















subsection \<open>The entries after an update\<close>





subsection \<open>Reading back what was written\<close>









section \<open>The claims about the configuration tool\<close>

text \<open>
  Claim C10. \<open>update_config\<close> returns, with a boolean, exactly when the first table whose
  key column has the target key, if there is one, also has a value column. When that table
  has no value column it raises \<open>AttributeError\<close> instead, and such a document exists,
  although \<open>view_configs\<close> on the same document leaves the table out and prints the rest.
\<close>

theorem update_config_total_iff_value:
  "((\<forall>p table. first_match root key = Some (p, table)
        \<longrightarrow> find_column table (py ''value'') \<noteq> None)
      \<longleftrightarrow> (\<exists>outs b root'. update_config root key v = Inr (outs, b, root')))
   \<and> ((\<exists>p table. first_match root key = Some (p, table)
        \<and> find_column table (py ''value'') = None)
      \<longleftrightarrow> update_config root key v = Inl AttributeError)
   \<and> update_config doc_novalue (py ''mode'') (py ''live'') = Inl AttributeError
   \<and> view_configs doc_novalue
       = [py '' '', py ''KEY  VALUE  DESCRIPTION'', replicate 15 45]"
proof (intro conjI)
  show "(\<forall>p table. first_match root key = Some (p, table)
        \<longrightarrow> find_column table (py ''value'') \<noteq> None)
      \<longleftrightarrow> (\<exists>outs b root'. update_config root key v = Inr (outs, b, root'))"
    by (auto simp: update_config_first_match split: option.splits)
  show "(\<exists>p table. first_match root key = Some (p, table)
        \<and> find_column table (py ''value'') = None)
      \<longleftrightarrow> update_config root key v = Inl AttributeError"
    by (auto simp: update_config_first_match split: option.splits)
  show "update_config doc_novalue (py ''mode'') (py ''live'') = Inl AttributeError"
    by (simp add: doc_novalue_def xml_eval py_def)
  show "view_configs doc_novalue = [py '' '', py ''KEY  VALUE  DESCRIPTION'', replicate 15 45]"
    by (simp add: doc_novalue_def view_configs_def xml_eval py_def ljust_def)
qed

theorem update_config_total_iff_value_witness:
  "first_match doc_two (py ''mode'')
     = Some ([1], Element (py ''table'') [] None
          [column (py ''key'') (Some (py ''mode'')),
           column (py ''value'') (Some (py ''live''))] None)
   \<and> (\<exists>outs b root'. update_config doc_two (py ''mode'') (py ''test'') = Inr (outs, b, root'))"
proof -
  have f: "first_match doc_two (py ''mode'')
     = Some ([1], Element (py ''table'') [] None
          [column (py ''key'') (Some (py ''mode'')),
           column (py ''value'') (Some (py ''live''))] None)"
    by (simp add: doc_two_def xml_eval py_def)
  have v: "find_column (Element (py ''table'') [] None
          [column (py ''key'') (Some (py ''mode'')),
           column (py ''value'') (Some (py ''live''))] None) (py ''value'') \<noteq> None"
    by (simp add: xml_eval py_def)
  from update_config_total_iff_value [of doc_two "py ''mode''" "py ''test''"] f v
  show ?thesis by simp
qed

text \<open>
  Claim C6, as amended. With no argument the tool prints the usage and exits with status 0.
  With at least one argument it loads the document first, and a missing file exits with
  status 1. With the document loaded, a first argument \<open>view\<close> prints the table and exits
  with status 0, whatever follows it; otherwise an argument count other than two prints an
  error about the arguments and exits with status 1; and with a key and a value, a key that
  no table has prints an error and exits with status 0, the file untouched.
\<close>

theorem main_exit_status:
  "(length argv < 2 \<longrightarrow> main parse serialize inp run argv d = ([Usage], 0, d))
   \<and> (2 \<le> length argv \<and> d XML_PATH = None
        \<longrightarrow> main parse serialize inp run argv d = ([FileNotFound], 1, d))
   \<and> (2 \<le> length argv \<and> load_xml parse d = Inr tree \<and> argv ! 1 = py ''view''
        \<longrightarrow> main parse serialize inp run argv d = (map Line (view_configs tree), 0, d))
   \<and> (2 \<le> length argv \<and> load_xml parse d = Inr tree \<and> argv ! 1 \<noteq> py ''view''
        \<and> length argv \<noteq> 3
        \<longrightarrow> main parse serialize inp run argv d = ([BadArgs], 1, d))
   \<and> (length argv = 3 \<and> load_xml parse d = Inr tree \<and> argv ! 1 \<noteq> py ''view''
        \<and> first_match tree (argv ! 1) = None
        \<longrightarrow> main parse serialize inp run argv d = ([KeyNotFound (argv ! 1)], 0, d))"
  by (auto simp: main_def load_xml_def update_config_first_match Let_def split: option.splits)

theorem main_exit_status_witness:
  "main parse_two serialize_xml Eof RunOk [py ''xedit.py''] disk_two = ([Usage], 0, disk_two)
   \<and> main parse_two serialize_xml Eof RunOk [py ''xedit.py'', py ''view''] disk_empty
       = ([FileNotFound], 1, disk_empty)
   \<and> main parse_two serialize_xml Eof RunOk [py ''xedit.py'', py ''view'', py ''more''] disk_two
       = (map Line (view_configs doc_two), 0, disk_two)
   \<and> main parse_two serialize_xml Eof RunOk [py ''xedit.py'', py ''mode''] disk_two
       = ([BadArgs], 1, disk_two)
   \<and> main parse_two serialize_xml Eof RunOk [py ''xedit.py'', py ''nonexistent_key'', py ''x'']
        disk_two
       = ([KeyNotFound (py ''nonexistent_key'')], 0, disk_two)"
proof -
  have l: "load_xml parse_two disk_two = Inr doc_two"
    by (simp add: load_xml_def disk_two_def parse_two_def)
  have e: "disk_empty XML_PATH = None" by (simp add: disk_empty_def)
  have n: "first_match doc_two (py ''nonexistent_key'') = None"
    by (simp add: doc_two_def xml_eval py_def)
  have v: "py ''mode'' \<noteq> py ''view''" "py ''nonexistent_key'' \<noteq> py ''view''"
    by (simp_all add: py_def)
  note m = main_exit_status [where parse = parse_two and serialize = serialize_xml
      and inp = Eof and run = RunOk]
  from m [of "[py ''xedit.py'']" disk_two]
  have one: "main parse_two serialize_xml Eof RunOk [py ''xedit.py''] disk_two
      = ([Usage], 0, disk_two)"
    by simp
  from m [of "[py ''xedit.py'', py ''view'']" disk_empty] e
  have two: "main parse_two serialize_xml Eof RunOk [py ''xedit.py'', py ''view''] disk_empty
       = ([FileNotFound], 1, disk_empty)"
    by simp
  from m [of "[py ''xedit.py'', py ''view'', py ''more'']" disk_two doc_two] l
  have three: "main parse_two serialize_xml Eof RunOk [py ''xedit.py'', py ''view'', py ''more'']
       disk_two = (map Line (view_configs doc_two), 0, disk_two)"
    by simp
  from m [of "[py ''xedit.py'', py ''mode'']" disk_two doc_two] l v
  have four: "main parse_two serialize_xml Eof RunOk [py ''xedit.py'', py ''mode''] disk_two
       = ([BadArgs], 1, disk_two)"
    by simp
  from m [of "[py ''xedit.py'', py ''nonexistent_key'', py ''x'']" disk_two doc_two] l v n
  have five: "main parse_two serialize_xml Eof RunOk
       [py ''xedit.py'', py ''nonexistent_key'', py ''x''] disk_two
       = ([KeyNotFound (py ''nonexistent_key'')], 0, disk_two)"
    by simp
  from one two three four five show ?thesis by simp
qed

text \<open>
  Claim C6 as stated says that every argument count other than the two forms prints the
  usage and exits with status 0. With three arguments after the script name, the first of
  them not \<open>view\<close>, the tool reports invalid arguments and exits with status 1.
\<close>

theorem main_bad_argument_count_counterexample:
  "main parse_two serialize_xml Eof RunOk [py ''xedit.py'', py ''a'', py ''b'', py ''c''] disk_two
     = ([BadArgs], 1, disk_two)"
  by (simp add: main_eval py_def)

text \<open>
  Claim C8. The table that \<open>view_configs\<close> prints is a line with one space, the header
  and the divider, followed by one row for each table that has both a key column and a
  value column, in document order and no others. The key and value columns are as wide as
  the longest included key and value, an absent text counting as empty, and the divider
  consists of \<open>-\<close> characters, fifteen more than the two widths together.
\<close>

theorem view_configs_table:
  "view_configs root =
     [py '' '',
      ljust (py ''KEY'') (key_width root) @ py ''  '' @ ljust (py ''VALUE'') (value_width root)
        @ py ''  '' @ py ''DESCRIPTION'',
      replicate (key_width root + value_width root + 15) 45]
     @ map (\<lambda>(k, v, d). ljust k (key_width root) @ py ''  '' @ ljust v (value_width root)
              @ py ''  '' @ fmt d)
         (table_rows root)
   \<and> table_rows root = map row_of (filter has_both (map snd (findall_table root)))
   \<and> key_width root = Max (set (0 # map (\<lambda>(k, v, d). length k) (table_rows root)))
   \<and> value_width root = Max (set (0 # map (\<lambda>(k, v, d). length v) (table_rows root)))
   \<and> length (view_configs root ! 2) = key_width root + value_width root + 15
   \<and> set (view_configs root ! 2) \<subseteq> {45}"
proof -
  have c: "collect (findall_table root) ([], 0, 0)
      = (table_rows root, key_width root, value_width root)"
    by (simp add: collect_fold widths_fold table_rows_def)
  then have v: "view_configs root =
     [py '' '',
      ljust (py ''KEY'') (key_width root) @ py ''  '' @ ljust (py ''VALUE'') (value_width root)
        @ py ''  '' @ py ''DESCRIPTION'',
      replicate (key_width root + value_width root + 15) 45]
     @ map (\<lambda>(k, v, d). ljust k (key_width root) @ py ''  '' @ ljust v (value_width root)
              @ py ''  '' @ fmt d)
         (table_rows root)"
    by (simp add: view_configs_def)
  have n: "view_configs root ! 2 = replicate (key_width root + value_width root + 15) 45"
    by (subst v) simp
  show ?thesis using v n
    by (simp add: table_rows_def key_width_def value_width_def del: set_simps)
qed

text \<open>
  Claim C4, as amended. Saving writes the declaration header followed by the serialized
  document, the whole of it, into the target path itself: the file is opened for writing,
  which empties it, and filled in place. No other path is written and nothing is renamed.
  The states that a crash during the write can leave are the old file, the emptied file,
  the file with the header only, and the complete new file. After a successful update the
  tool leaves the target holding the header and the serialized updated document.
\<close>

theorem save_writes_in_place:
  "run_ops (tree_write serialize root path) d = d(path := Some (XML_DECL @ serialize root))
   \<and> filter is_rename (tree_write serialize root path) = []
   \<and> crash_states (tree_write serialize root path) d =
       [d, d(path := Some []), d(path := Some XML_DECL),
        d(path := Some (XML_DECL @ serialize root)), d(path := Some (XML_DECL @ serialize root))]
   \<and> (update_config tree key v = Inr (outs, True, tree') \<and> load_xml parse d = Inr tree
        \<and> key \<noteq> py ''view''
      \<longrightarrow> snd (snd (main parse serialize inp run [prog, key, v] d))
            = d(XML_PATH := Some (XML_DECL @ serialize tree')))"
proof (intro conjI impI)
  show "run_ops (tree_write serialize root path) d = d(path := Some (XML_DECL @ serialize root))"
    by (rule run_tree_write)
  show "filter is_rename (tree_write serialize root path) = []"
    by (simp add: tree_write_def)
  show "crash_states (tree_write serialize root path) d =
       [d, d(path := Some []), d(path := Some XML_DECL),
        d(path := Some (XML_DECL @ serialize root)), d(path := Some (XML_DECL @ serialize root))]"
    by (rule crash_tree_write)
next
  assume h: "update_config tree key v = Inr (outs, True, tree') \<and> load_xml parse d = Inr tree
        \<and> key \<noteq> py ''view''"
  then show "snd (snd (main parse serialize inp run [prog, key, v] d))
            = d(XML_PATH := Some (XML_DECL @ serialize tree'))"
    by (auto simp: main_def Let_def run_tree_write split: prod.splits option.splits)
qed

theorem save_writes_in_place_witness:
  "snd (snd (main parse_two serialize_xml (Answer (py ''n'')) RunOk
       [py ''xedit.py'', py ''poll_interval'', py ''60''] disk_two))
     = disk_two(XML_PATH := Some (XML_DECL @ serialize_xml doc_two_updated))"
proof -
  have u: "update_config doc_two (py ''poll_interval'') (py ''60'')
     = Inr ([Updated (py ''poll_interval'') (Some (py ''30'')) (py ''60'')], True, doc_two_updated)"
    by (simp add: doc_two_def doc_two_updated_def xml_eval py_def)
  have l: "load_xml parse_two disk_two = Inr doc_two"
    by (simp add: load_xml_def disk_two_def parse_two_def)
  have v: "py ''poll_interval'' \<noteq> py ''view''" by (simp add: py_def)
  from save_writes_in_place [of serialize_xml doc_two XML_PATH disk_two doc_two
      "py ''poll_interval''" "py ''60''" _ doc_two_updated parse_two] u l v
  show ?thesis by simp
qed

text \<open>
  Claim C4 as stated says that the new content goes to a temporary file that is renamed
  over the target, so that no crash leaves a half-written file. The write contains no
  rename and starts by truncating the target; a crash after the header has been written
  leaves a file that is neither the old document nor the new one.
\<close>

theorem save_not_atomic_counterexample:
  "filter is_rename (tree_write serialize_xml doc_two_updated XML_PATH) = []
   \<and> hd (tree_write serialize_xml doc_two_updated XML_PATH) = OpenTruncate XML_PATH
   \<and> (crash_states (tree_write serialize_xml doc_two_updated XML_PATH) disk_two ! 2) XML_PATH
       = Some XML_DECL
   \<and> disk_two XML_PATH = Some (XML_DECL @ serialize_xml doc_two)
   \<and> XML_DECL \<noteq> XML_DECL @ serialize_xml doc_two
   \<and> XML_DECL \<noteq> XML_DECL @ serialize_xml doc_two_updated"
proof -
  have a: "serialize_xml doc_two \<noteq> []" "serialize_xml doc_two_updated \<noteq> []"
    by (simp_all add: doc_two_def doc_two_updated_def py_def)
  show ?thesis using a
    by (simp add: crash_tree_write disk_two_def) (simp add: tree_write_def)
qed

text \<open>
  Claim C5 says that \<open>update_config\<close> overwrites the value of the first entry with the key
  and returns true, and returns false when no entry has the key. The code reads the text
  of the value column without checking that the table has one, which \<open>view_configs\<close> does
  check: for a document whose first table with the key has no value column, it raises
  \<open>AttributeError\<close>, and the tool ends with a traceback and status 1, the file as it was.
\<close>

theorem update_raises_without_value:
  "first_match doc_novalue (py ''mode'')
     = Some ([0], Element (py ''table'') [] None [column (py ''key'') (Some (py ''mode''))] None)
   \<and> find_column (Element (py ''table'') [] None [column (py ''key'') (Some (py ''mode''))] None)
        (py ''value'') = None
   \<and> update_config doc_novalue (py ''mode'') (py ''live'') = Inl AttributeError
   \<and> main parse_novalue serialize_xml (Answer (py ''n'')) RunOk
        [py ''xedit.py'', py ''mode'', py ''live''] disk_novalue
       = ([Traceback AttributeError], 1, disk_novalue)"
  by (simp add: doc_novalue_def xml_eval main_def load_xml_def disk_novalue_def parse_novalue_def
      py_def)




end
